theory Spec2Isabelle
  imports Main
begin

section \<open>Tracing primitives: spans and the spanner\<close>

text \<open>
  The tracing package and the fan-out coordinator (\<open>fanout.New\<close>) are exercised by the
  repository's test file but their sources are absent from the source tree; they are modelled
  from sections 3, 4.1 and 4.2 of the specification. Clock readings are integers.
\<close>

type_synonym time = int

text \<open>Modelled from the spec: the Span record \<open>{name, start timestamp, duration, optional error}\<close>
  of the missing tracing package.\<close>

record 'e span =
  span_name :: string
  span_start :: time
  span_duration :: time
  span_error :: "'e option"

text \<open>Modelled from the spec: the Spanner of the missing tracing package, a stateless factory.
  \<open>Start\<close> records the start timestamp in a live tracker bound to one attempt; \<open>Finish\<close>
  computes the duration from now minus start and stores the (nilable) error.\<close>

datatype spanner = NewSpanner

record live_span =
  live_name :: string
  live_start :: time

definition Start :: "spanner \<Rightarrow> time \<Rightarrow> string \<Rightarrow> live_span" where
  "Start sp now name = \<lparr>live_name = name, live_start = now\<rparr>"

definition Finish :: "live_span \<Rightarrow> time \<Rightarrow> 'e option \<Rightarrow> 'e span" where
  "Finish l now err =
     \<lparr>span_name = live_name l, span_start = live_start l,
      span_duration = now - live_start l, span_error = err\<rparr>"

text \<open>Modelled from the spec: the optional Mergeable capability of the missing tracing package.
  A response either implements the capability, and then receives the accumulated spans, or it
  does not, and the engine wraps it in the default carrier. Either value exposes its spans.\<close>

datatype 'r response = Mergeable 'r | Unmergeable 'r

datatype ('r, 'e) spanned = WithSpans 'r "'e span list" | Carrier 'r "'e span list"

fun MergeSpans :: "'r response \<Rightarrow> 'e span list \<Rightarrow> ('r, 'e) spanned" where
  "MergeSpans (Mergeable r) spans = WithSpans r spans"
| "MergeSpans (Unmergeable r) spans = Carrier r spans"

fun Spans :: "('r, 'e) spanned \<Rightarrow> 'e span list" where
  "Spans (WithSpans r spans) = spans"
| "Spans (Carrier r spans) = spans"

text \<open>Modelled from the spec: the failure value \<open>{cause, Spans()}\<close> of the missing tracing
  package (the tests call it \<open>SpanError\<close>, with \<open>Err()\<close> and \<open>Spans()\<close>).\<close>

record 'e span_error =
  Err :: 'e
  ErrSpans :: "'e span list"

definition NewSpanError :: "'e \<Rightarrow> 'e span list \<Rightarrow> 'e span_error" where
  "NewSpanError cause spans = \<lparr>Err = cause, ErrSpans = spans\<rparr>"

section \<open>The fan-out coordinator\<close>

text \<open>
  An endpoint takes the shared request and returns a failure (\<open>Inl\<close>) or a response (\<open>Inr\<close>).
  The name-to-endpoint mapping is an association list with distinct keys; \<open>None\<close> is the nil
  mapping. The result of a call is the pair (response, error) of the callable, one component of
  which is nil.
\<close>

type_synonym ('q, 'r, 'e) endpoint = "'q \<Rightarrow> 'e + 'r response"

type_synonym ('q, 'r, 'e) components = "(string \<times> ('q, 'r, 'e) endpoint) list"

type_synonym ('r, 'e) outcome = "('r, 'e) spanned option \<times> 'e span_error option"

text \<open>
  What the decision loop can receive: an attempt completed with success, an attempt completed
  with failure, or the cancellation signal (carrying the cancellation cause of the context).
\<close>

datatype ('r, 'e) event =
    Succeeded "'e span" "'r response"
  | Failed "'e span" 'e
  | Cancelled 'e

text \<open>
  The real-time order in which things happen during one call is an input of the model: the
  attempt configured under a key returns at some clock reading, or the cancellation token fires.
\<close>

datatype tick = Finishes string time | Fires

record 'e call_context =
  ctx_now :: time
  ctx_err :: 'e

text \<open>Modelled from the spec (4.2, step 2): one attempt of the missing coordinator. It starts a
  span named for its configuration key, invokes its endpoint on the shared request and finalises
  the span with the endpoint's error, nil on success.\<close>

definition attempt ::
  "spanner \<Rightarrow> time \<Rightarrow> string \<Rightarrow> ('q, 'r, 'e) endpoint \<Rightarrow> 'q \<Rightarrow> time \<Rightarrow> ('r, 'e) event" where
  "attempt sp started name e request finished =
     (let finisher = Start sp started name in
      case e request of
        Inl err \<Rightarrow> Failed (Finish finisher finished (Some err)) err
      | Inr resp \<Rightarrow> Succeeded (Finish finisher finished None) resp)"

text \<open>Modelled from the spec (section 5): the multiplexed queue of the missing coordinator. Every
  attempt pushes exactly one completion record when it finishes; a tick that names no configured
  attempt produces nothing.\<close>

fun arrivals ::
  "spanner \<Rightarrow> 'e call_context \<Rightarrow> ('q, 'r, 'e) components \<Rightarrow> 'q \<Rightarrow> tick list \<Rightarrow> ('r, 'e) event list" where
  "arrivals sp ctx cs request [] = []"
| "arrivals sp ctx cs request (Fires # ts) = Cancelled (ctx_err ctx) # arrivals sp ctx cs request ts"
| "arrivals sp ctx cs request (Finishes name t # ts) =
     (case map_of cs name of
        None \<Rightarrow> arrivals sp ctx cs request ts
      | Some e \<Rightarrow> attempt sp (ctx_now ctx) name e request t # arrivals sp ctx cs request ts)"

text \<open>Modelled from the spec (4.2, step 3): the sequential decision loop of the missing
  coordinator, over the events in arrival order. \<open>outstanding\<close> counts the attempts that have not
  reported yet. \<open>None\<close> means that the call has not resolved: the loop is still waiting.\<close>

fun decide ::
  "nat \<Rightarrow> 'e span list \<Rightarrow> 'e option \<Rightarrow> ('r, 'e) event list \<Rightarrow> ('r, 'e) outcome option" where
  "decide outstanding spans cause [] = None"
| "decide outstanding spans cause (Succeeded s resp # evs) =
     Some (Some (MergeSpans resp (spans @ [s])), None)"
| "decide outstanding spans cause (Failed s err # evs) =
     (let spans' = spans @ [s]; cause' = err in
      if outstanding \<le> 1 then Some (None, Some (NewSpanError cause' spans'))
      else decide (outstanding - 1) spans' (Some cause') evs)"
| "decide outstanding spans cause (Cancelled c # evs) =
     Some (None, Some (NewSpanError c spans))"

text \<open>Modelled from the spec (4.2, construction contract): the constructor of the missing
  coordinator. A nil spanner, or a nil or empty endpoint mapping, is a configuration error at
  construction. The second component threads the log of endpoint invocations, which construction
  never extends.\<close>

datatype config_error = NoSpanner | NoEndpoints

record ('q, 'r, 'e) coordinator =
  co_spanner :: spanner
  co_endpoints :: "('q, 'r, 'e) components"

type_synonym 'q invocations = "(string \<times> 'q) list"

definition New ::
  "spanner option \<Rightarrow> ('q, 'r, 'e) components option \<Rightarrow> 'q invocations
     \<Rightarrow> (config_error + ('q, 'r, 'e) coordinator) \<times> 'q invocations" where
  "New spanner endpoints log =
     (case spanner of
        None \<Rightarrow> (Inl NoSpanner, log)
      | Some sp \<Rightarrow>
          (case endpoints of
             None \<Rightarrow> (Inl NoEndpoints, log)
           | Some cs \<Rightarrow>
               if length cs = 0 then (Inl NoEndpoints, log)
               else (Inr \<lparr>co_spanner = sp, co_endpoints = cs\<rparr>, log)))"

text \<open>Modelled from the spec (4.2, call contract): the callable of the missing coordinator. It
  launches one attempt per configured entry, all on the same request, and runs the decision
  loop over what arrives.\<close>

definition fanout ::
  "('q, 'r, 'e) coordinator \<Rightarrow> 'e call_context \<Rightarrow> 'q \<Rightarrow> tick list \<Rightarrow> 'q invocations
     \<Rightarrow> ('r, 'e) outcome option \<times> 'q invocations" where
  "fanout co ctx request ticks log =
     (decide (length (co_endpoints co)) [] None
        (arrivals (co_spanner co) ctx (co_endpoints co) request ticks),
      log @ map (\<lambda>(name, e). (name, request)) (co_endpoints co))"

section \<open>The HTTP binding of the fan-out (package fanouthttp)\<close>

text \<open>
  Go values that live behind pointers are kept in a store, one list of cells per type; an address
  is an index into the list and \<open>None\<close> is the nil pointer. Allocation appends a cell, so a new
  address is never one that was valid before. Dereferencing nil or a dangling address panics.
\<close>

type_synonym addr = nat

record userinfo =
  username :: string
  password :: string
  passwordSet :: bool

record url =
  Scheme :: string
  Opaque :: string
  User :: "userinfo option"
  Host :: string
  Path :: string
  RawPath :: string
  ForceQuery :: bool
  RawQuery :: string
  Fragment :: string

record http_request =
  Method :: string
  URL :: "addr option"
  Proto :: string
  Header :: "(string \<times> string list) list"
  Body :: string
  RequestHost :: string
  RemoteAddr :: string

text \<open>A value of the empty interface: nil, a pointer to a \<open>fanoutRequest\<close>, or anything else.\<close>

datatype 'v any = NilValue | FanoutRequestPtr addr | Value 'v

record 'v fanoutRequest =
  original :: "addr option"
  relativeURL :: "addr option"
  entity :: "'v any"

record 'v heap =
  request_cells :: "http_request list"
  url_cells :: "url list"
  fanoutRequest_cells :: "'v fanoutRequest list"

definition deref :: "'a list \<Rightarrow> addr option \<Rightarrow> 'a option" where
  "deref cells p =
     (case p of None \<Rightarrow> None
      | Some a \<Rightarrow> if a < length cells then Some (cells ! a) else None)"

definition new_url :: "url \<Rightarrow> 'v heap \<Rightarrow> addr \<times> 'v heap" where
  "new_url u h = (length (url_cells h), h\<lparr>url_cells := url_cells h @ [u]\<rparr>)"

definition new_fanoutRequest :: "'v fanoutRequest \<Rightarrow> 'v heap \<Rightarrow> addr \<times> 'v heap" where
  "new_fanoutRequest fr h =
     (length (fanoutRequest_cells h), h\<lparr>fanoutRequest_cells := fanoutRequest_cells h @ [fr]\<rparr>)"

definition update_request ::
  "addr \<Rightarrow> (http_request \<Rightarrow> http_request) \<Rightarrow> 'v heap \<Rightarrow> 'v heap" where
  "update_request a f h = h\<lparr>request_cells := (request_cells h)[a := f (request_cells h ! a)]\<rparr>"

text \<open>A Go function either panics or returns; the hooks may panic as well.\<close>

datatype 'a result = Panics string | Returns 'a

definition nil_dereference :: string where
  "nil_dereference = ''invalid memory address or nil pointer dereference''"

text \<open>
  go-kit's \<open>DecodeRequestFunc\<close> takes the context and the request pointer and returns
  (entity, error); \<open>EncodeRequestFunc\<close> takes the context, the outbound request pointer and a
  value and returns an error. Both receive pointers, so both may change the store.
\<close>

type_synonym ('c, 'v, 'e) DecodeRequestFunc =
  "'c \<Rightarrow> addr option \<Rightarrow> 'v heap \<Rightarrow> ('v any \<times> 'e option) result \<times> 'v heap"

type_synonym ('c, 'v, 'e) EncodeRequestFunc =
  "'c \<Rightarrow> addr option \<Rightarrow> 'v any \<Rightarrow> 'v heap \<Rightarrow> 'e option result \<times> 'v heap"

text \<open>The function that \<open>decodeFanoutRequest\<close> returns, with the hook it has captured.\<close>

definition decodeFanoutRequest_closure ::
  "('c, 'v, 'e) DecodeRequestFunc \<Rightarrow> ('c, 'v, 'e) DecodeRequestFunc" where
  "decodeFanoutRequest_closure dec ctx orig h =
     (case dec ctx orig h of
        (Panics msg, h1) \<Rightarrow> (Panics msg, h1)
      | (Returns (ent, err), h1) \<Rightarrow>
          if err \<noteq> None then (Returns (NilValue, err), h1)
          else
            (case deref (request_cells h1) orig of
               None \<Rightarrow> (Panics nil_dereference, h1)
             | Some req \<Rightarrow>
                 (case deref (url_cells h1) (URL req) of
                    None \<Rightarrow> (Panics nil_dereference, h1)
                  | Some u \<Rightarrow>
                      let rel0 = u;
                          rel1 = rel0\<lparr>Scheme := []\<rparr>;
                          rel2 = rel1\<lparr>Host := []\<rparr>;
                          rel3 = rel2\<lparr>User := None\<rparr>;
                          (pu, h2) = new_url rel3 h1;
                          (pf, h3) = new_fanoutRequest
                             \<lparr>original = orig, relativeURL = Some pu, entity = ent\<rparr> h2
                      in (Returns (FanoutRequestPtr pf, None), h3))))"

definition decodeFanoutRequest ::
  "('c, 'v, 'e) DecodeRequestFunc option \<Rightarrow> ('c, 'v, 'e) DecodeRequestFunc result" where
  "decodeFanoutRequest dec =
     (case dec of
        None \<Rightarrow> Panics ''The entity decoder cannot be nil''
      | Some d \<Rightarrow> Returns (decodeFanoutRequest_closure d))"

text \<open>
  \<open>ResolveReference\<close> belongs to the standard library's \<open>net/url\<close>; it is a parameter here. It
  returns a pointer to a new URL, hence the allocation.
\<close>

definition encodeComponentRequest_closure ::
  "(url \<Rightarrow> url \<Rightarrow> url) \<Rightarrow> ('c, 'v, 'e) EncodeRequestFunc \<Rightarrow> ('c, 'v, 'e) EncodeRequestFunc" where
  "encodeComponentRequest_closure ResolveReference enc ctx component v h =
     (case v of
        FanoutRequestPtr pf \<Rightarrow>
          (case deref (fanoutRequest_cells h) (Some pf) of
             None \<Rightarrow> (Panics nil_dereference, h)
           | Some fr \<Rightarrow>
               (case (deref (request_cells h) (original fr), component) of
                  (Some orig, Some pc) \<Rightarrow>
                    if pc < length (request_cells h) then
                      (let h1 = update_request pc (\<lambda>c. c\<lparr>Method := Method orig\<rparr>) h in
                       case (deref (url_cells h1) (URL (request_cells h1 ! pc)),
                             deref (url_cells h1) (relativeURL fr)) of
                         (Some base, Some rel) \<Rightarrow>
                           (let (pu, h2) = new_url (ResolveReference base rel) h1;
                                h3 = update_request pc (\<lambda>c. c\<lparr>URL := Some pu\<rparr>) h2
                            in enc ctx component (entity fr) h3)
                       | _ \<Rightarrow> (Panics nil_dereference, h1))
                    else (Panics nil_dereference, h)
                | _ \<Rightarrow> (Panics nil_dereference, h)))
      | _ \<Rightarrow>
          (Panics ''interface conversion: interface {} is not *fanouthttp.fanoutRequest'', h))"

definition encodeComponentRequest ::
  "(url \<Rightarrow> url \<Rightarrow> url) \<Rightarrow> ('c, 'v, 'e) EncodeRequestFunc option
     \<Rightarrow> ('c, 'v, 'e) EncodeRequestFunc result" where
  "encodeComponentRequest ResolveReference enc =
     (case enc of
        None \<Rightarrow> Panics ''The entity encoder cannot be nil''
      | Some f \<Rightarrow> Returns (encodeComponentRequest_closure ResolveReference f))"

text \<open>
  \<open>NewComponents\<close>. \<open>url.Parse\<close> (standard library) and go-kit's \<open>NewClient(...).Endpoint()\<close> are
  parameters. The error is either the parser's or one made by \<open>fmt.Errorf\<close>. The result is the
  Go pair (components, error); the components are a map from the raw address to its endpoint.
\<close>

datatype 'p components_error = ParseError 'p | Errorf string

fun NewComponents_loop ::
  "(string \<Rightarrow> 'p + url) \<Rightarrow> (url \<Rightarrow> url \<Rightarrow> url)
     \<Rightarrow> (string \<Rightarrow> url \<Rightarrow> ('c, 'v, 'e) EncodeRequestFunc \<Rightarrow> 'd \<Rightarrow> 'o \<Rightarrow> 'ep)
     \<Rightarrow> ('c, 'v, 'e) EncodeRequestFunc option \<Rightarrow> 'd \<Rightarrow> 'o
     \<Rightarrow> (string \<rightharpoonup> 'ep) \<Rightarrow> string list
     \<Rightarrow> ((string \<rightharpoonup> 'ep) option \<times> 'p components_error option) result" where
  "NewComponents_loop Parse ResolveReference NewClient enc dec options components [] =
     Returns (Some components, None)"
| "NewComponents_loop Parse ResolveReference NewClient enc dec options components (raw # rest) =
     (case Parse raw of
        Inl err \<Rightarrow> Returns (None, Some (ParseError err))
      | Inr target \<Rightarrow>
          if length (Scheme target) = 0 then
            Returns (None, Some (Errorf (''Endpoint '' @ [CHR 0x27] @ raw @ [CHR 0x27]
                                          @ '' does not specify a scheme'')))
          else if length (RawQuery target) > 0 then
            Returns (None, Some (Errorf (''Endpoint '' @ [CHR 0x27] @ raw @ [CHR 0x27]
                                          @ '' specifies a query string'')))
          else
            (case encodeComponentRequest ResolveReference enc of
               Panics msg \<Rightarrow> Panics msg
             | Returns encoder \<Rightarrow>
                 NewComponents_loop Parse ResolveReference NewClient enc dec options
                   (components(raw \<mapsto> NewClient ''GET'' target encoder dec options)) rest))"

definition NewComponents ::
  "(string \<Rightarrow> 'p + url) \<Rightarrow> (url \<Rightarrow> url \<Rightarrow> url)
     \<Rightarrow> (string \<Rightarrow> url \<Rightarrow> ('c, 'v, 'e) EncodeRequestFunc \<Rightarrow> 'd \<Rightarrow> 'o \<Rightarrow> 'ep)
     \<Rightarrow> string list \<Rightarrow> ('c, 'v, 'e) EncodeRequestFunc option \<Rightarrow> 'd \<Rightarrow> 'o
     \<Rightarrow> ((string \<rightharpoonup> 'ep) option \<times> 'p components_error option) result" where
  "NewComponents Parse ResolveReference NewClient urls enc dec options =
     NewComponents_loop Parse ResolveReference NewClient enc dec options Map.empty urls"

text \<open>\<open>NewHandler\<close>; go-kit's \<open>NewServer\<close> is a parameter.\<close>

definition NewHandler ::
  "('ept \<Rightarrow> ('c, 'v, 'e) DecodeRequestFunc \<Rightarrow> 'enc \<Rightarrow> 'o \<Rightarrow> 'handler)
     \<Rightarrow> 'ept \<Rightarrow> ('c, 'v, 'e) DecodeRequestFunc option \<Rightarrow> 'enc \<Rightarrow> 'o \<Rightarrow> 'handler result" where
  "NewHandler NewServer endpoint dec enc options =
     (case decodeFanoutRequest dec of
        Panics msg \<Rightarrow> Panics msg
      | Returns decoder \<Rightarrow> Returns (NewServer endpoint decoder enc options))"

text \<open>An address as the claims about \<open>NewComponents\<close> call it valid: it parses, has a scheme and
  carries no query.\<close>

definition valid_address :: "(string \<Rightarrow> 'p + url) \<Rightarrow> string \<Rightarrow> bool" where
  "valid_address Parse raw =
     (case Parse raw of Inl err \<Rightarrow> False
      | Inr target \<Rightarrow> Scheme target \<noteq> [] \<and> RawQuery target = [])"

section \<open>Response decoders of the WRP HTTP client (package wrphttp)\<close>

text \<open>
  The body of a response is what \<open>ioutil.ReadAll\<close> gives for it: an error or the bytes read. An
  error of a helper is identified with its message. \<open>wrp.FormatFromContentType\<close>, the pool's
  \<open>Format\<close>, \<open>wrpendpoint.DecodeResponseBytes\<close>, \<open>NewMessageFromHeaders\<close> and
  \<open>wrpendpoint.WrapAsResponse\<close> are defined elsewhere in the repository and are parameters.
\<close>

record http_response =
  StatusCode :: int
  ResponseHeader :: "(string \<times> string list) list"
  ResponseBody :: "string + string"

definition Header_Get :: "(string \<times> string list) list \<Rightarrow> string \<Rightarrow> string" where
  "Header_Get h key = (case map_of h key of Some (v # vs) \<Rightarrow> v | _ \<Rightarrow> [])"

record httperror =
  Code :: int
  Text :: string

datatype decode_error = ReadError string | E httperror

definition StatusOK :: int where
  "StatusOK = 200"

definition StatusBadRequest :: int where
  "StatusBadRequest = 400"

definition StatusUnsupportedMediaType :: int where
  "StatusUnsupportedMediaType = 415"

definition StatusInternalServerError :: int where
  "StatusInternalServerError = 500"

definition ClientDecodeResponseBody ::
  "(string \<Rightarrow> string + 'f) \<Rightarrow> ('pool \<Rightarrow> 'f) \<Rightarrow> (string \<Rightarrow> 'pool \<Rightarrow> string + 'resp)
     \<Rightarrow> 'pool \<Rightarrow> http_response \<Rightarrow> 'resp option \<times> decode_error option" where
  "ClientDecodeResponseBody FormatFromContentType Format DecodeResponseBytes pool httpResponse =
     (case ResponseBody httpResponse of
        Inl err \<Rightarrow> (None, Some (ReadError err))
      | Inr body \<Rightarrow>
          if StatusCode httpResponse = StatusOK then
            (let contentType = Header_Get (ResponseHeader httpResponse) ''Content-Type'' in
             case FormatFromContentType contentType of
               Inl err \<Rightarrow> (None, Some (E \<lparr>Code = StatusBadRequest, Text = err\<rparr>))
             | Inr responseFormat \<Rightarrow>
                 if responseFormat \<noteq> Format pool then
                   (None, Some (E \<lparr>Code = StatusUnsupportedMediaType,
                                   Text = ''Unexpected response Content-Type: '' @ contentType\<rparr>))
                 else
                   (case DecodeResponseBytes body pool of
                      Inl err \<Rightarrow> (None, Some (E \<lparr>Code = StatusInternalServerError, Text = err\<rparr>))
                    | Inr response \<Rightarrow> (Some response, None)))
          else (None, Some (E \<lparr>Code = StatusCode httpResponse, Text = []\<rparr>)))"

definition ClientDecodeResponseHeaders ::
  "((string \<times> string list) list \<Rightarrow> string \<Rightarrow> string + 'm) \<Rightarrow> ('m \<Rightarrow> 'resp)
     \<Rightarrow> http_response \<Rightarrow> 'resp option \<times> decode_error option" where
  "ClientDecodeResponseHeaders NewMessageFromHeaders WrapAsResponse httpResponse =
     (case ResponseBody httpResponse of
        Inl err \<Rightarrow> (None, Some (ReadError err))
      | Inr body \<Rightarrow>
          if StatusCode httpResponse = StatusOK then
            (case NewMessageFromHeaders (ResponseHeader httpResponse) body of
               Inl err \<Rightarrow> (None, Some (E \<lparr>Code = StatusBadRequest, Text = err\<rparr>))
             | Inr message \<Rightarrow>
                 (let (response, err) = (WrapAsResponse message, None :: string option) in
                  case err of
                    Some e \<Rightarrow> (None, Some (E \<lparr>Code = StatusInternalServerError, Text = e\<rparr>))
                  | None \<Rightarrow> (Some response, None)))
          else (None, Some (E \<lparr>Code = StatusCode httpResponse, Text = []\<rparr>)))"

section \<open>Vocabulary of the properties\<close>

text \<open>The spans of the attempts that have completed, in completion order.\<close>

fun completed_spans :: "('r, 'e) event list \<Rightarrow> 'e span list" where
  "completed_spans [] = []"
| "completed_spans (Succeeded s resp # evs) = s # completed_spans evs"
| "completed_spans (Failed s err # evs) = s # completed_spans evs"
| "completed_spans (Cancelled c # evs) = completed_spans evs"

fun is_failure :: "('r, 'e) event \<Rightarrow> bool" where
  "is_failure (Failed s err) = True"
| "is_failure ev = False"

text \<open>The configuration keys of the attempts that return during a stretch of time, in order.\<close>

fun finished :: "tick list \<Rightarrow> string list" where
  "finished [] = []"
| "finished (Finishes name t # ts) = name # finished ts"
| "finished (Fires # ts) = finished ts"

text \<open>What each configured attempt returns on a request, in configuration order.\<close>

definition attempt_results ::
  "('q, 'r, 'e) coordinator \<Rightarrow> 'q \<Rightarrow> (string \<times> ('e + 'r response)) list" where
  "attempt_results co request = map (\<lambda>(name, e). (name, e request)) (co_endpoints co)"

section \<open>Concrete scenarios\<close>

text \<open>
  The scenarios of section 8 of the specification and of the test file, used to run the model:
  attempt \<open>a\<close> fails and \<open>b\<close> succeeds (scenario B); both fail (scenario C); the single slow
  endpoint of \<open>testNewTimeout\<close> with one service, which returns its response once released.
\<close>

definition scenario_ctx :: "string call_context" where
  "scenario_ctx = \<lparr>ctx_now = 0, ctx_err = ''context canceled''\<rparr>"

definition scenario_B :: "(string, string, string) coordinator" where
  "scenario_B =
     \<lparr>co_spanner = NewSpanner,
      co_endpoints = [(''a'', \<lambda>request. Inl ''e1''), (''b'', \<lambda>request. Inr (Mergeable ''ok''))]\<rparr>"

definition scenario_C :: "(string, string, string) coordinator" where
  "scenario_C =
     \<lparr>co_spanner = NewSpanner,
      co_endpoints = [(''a'', \<lambda>request. Inl ''e1''), (''b'', \<lambda>request. Inl ''e2'')]\<rparr>"

definition scenario_slow :: "(string, string, string) coordinator" where
  "scenario_slow =
     \<lparr>co_spanner = NewSpanner,
      co_endpoints = [(''slow#0'', \<lambda>request. Inr (Mergeable ''expectedResponse''))]\<rparr>"

text \<open>
  An inbound request with an absolute URL, the outbound request of one component, and the store
  before and after the request adapter has run.
\<close>

definition sample_url :: url where
  "sample_url =
     \<lparr>Scheme = ''http'', Opaque = [],
      User = Some \<lparr>username = ''user'', password = ''secret'', passwordSet = True\<rparr>,
      Host = ''gateway:8080'', Path = ''/api/v2/device'', RawPath = [], ForceQuery = False,
      RawQuery = ''id=7'', Fragment = []\<rparr>"

definition sample_target :: url where
  "sample_target =
     \<lparr>Scheme = ''https'', Opaque = [], User = None, Host = ''host1:8080'', Path = [],
      RawPath = [], ForceQuery = False, RawQuery = [], Fragment = []\<rparr>"

definition sample_request :: http_request where
  "sample_request =
     \<lparr>Method = ''POST'', URL = Some 0, Proto = ''HTTP/1.1'', Header = [], Body = ''payload'',
      RequestHost = ''gateway:8080'', RemoteAddr = ''10.0.0.1:4000''\<rparr>"

definition sample_component :: http_request where
  "sample_component =
     \<lparr>Method = ''GET'', URL = Some 1, Proto = ''HTTP/1.1'', Header = [], Body = [],
      RequestHost = ''host1:8080'', RemoteAddr = []\<rparr>"

definition sample_heap :: "string heap" where
  "sample_heap =
     \<lparr>request_cells = [sample_request, sample_component],
      url_cells = [sample_url, sample_target],
      fanoutRequest_cells = []\<rparr>"

definition sample_decoded_heap :: "string heap" where
  "sample_decoded_heap =
     \<lparr>request_cells = [sample_request, sample_component],
      url_cells = [sample_url, sample_target, sample_url\<lparr>Scheme := [], Host := [], User := None\<rparr>],
      fanoutRequest_cells = [\<lparr>original = Some 0, relativeURL = Some 2, entity = Value ''entity''\<rparr>]\<rparr>"

definition sample_dec :: "(unit, string, string) DecodeRequestFunc" where
  "sample_dec ctx orig h = (Returns (Value ''entity'', None), h)"

definition sample_failing_dec :: "(unit, string, string) DecodeRequestFunc" where
  "sample_failing_dec ctx orig h = (Returns (NilValue, Some ''malformed entity''), h)"

definition sample_enc :: "(unit, string, string) EncodeRequestFunc" where
  "sample_enc ctx component v h =
     (Returns (case v of Value s \<Rightarrow> None | _ \<Rightarrow> Some ''not an entity''), h)"

text \<open>A stand-in for \<open>ResolveReference\<close> on a reference without scheme, host and user and with
  an absolute path, and one for go-kit's client constructor, which keeps method and target.\<close>

definition sample_ResolveReference :: "url \<Rightarrow> url \<Rightarrow> url" where
  "sample_ResolveReference base ref = ref\<lparr>Scheme := Scheme base, Host := Host base, User := User base\<rparr>"

definition sample_NewClient ::
  "string \<Rightarrow> url \<Rightarrow> (unit, string, string) EncodeRequestFunc \<Rightarrow> unit \<Rightarrow> unit \<Rightarrow> string \<times> url" where
  "sample_NewClient method target enc dec options = (method, target)"

text \<open>What \<open>url.Parse\<close> gives on five addresses; the table says nothing about any other.\<close>

definition sample_Parse :: "string \<Rightarrow> string + url" where
  "sample_Parse raw =
     (if raw = ''https://host1:8080'' then Inr sample_target
      else if raw = ''http://host2'' then Inr (sample_target\<lparr>Scheme := ''http'', Host := ''host2''\<rparr>)
      else if raw = ''host3'' then Inr (sample_target\<lparr>Scheme := [], Host := [], Path := ''host3''\<rparr>)
      else if raw = ''http://host4?x=1'' then
        Inr (sample_target\<lparr>Scheme := ''http'', Host := ''host4'', RawQuery := ''x=1''\<rparr>)
      else if raw = '':'' then Inl ''missing protocol scheme''
      else Inl ''address outside the table'')"

text \<open>Stand-ins for the WRP helpers: the two formats and their content types, a pool that is its
  format, a body decoder that rejects the empty body and a header parser that accepts any header
  set.\<close>

datatype sample_format = JSON | Msgpack

definition sample_FormatFromContentType :: "string \<Rightarrow> string + sample_format" where
  "sample_FormatFromContentType contentType =
     (if contentType = ''application/json'' then Inr JSON
      else if contentType = ''application/msgpack'' then Inr Msgpack
      else Inl (''Invalid WRP content type: '' @ contentType))"

definition sample_DecodeResponseBytes :: "string \<Rightarrow> sample_format \<Rightarrow> string + string" where
  "sample_DecodeResponseBytes body pool = (if body = [] then Inl ''EOF'' else Inr body)"

definition sample_NewMessageFromHeaders :: "(string \<times> string list) list \<Rightarrow> string \<Rightarrow> string + string" where
  "sample_NewMessageFromHeaders h body = Inr body"

definition sample_response :: "string \<Rightarrow> string \<Rightarrow> http_response" where
  "sample_response contentType body =
     \<lparr>StatusCode = 200, ResponseHeader = [(''Content-Type'', [contentType])],
      ResponseBody = Inr body\<rparr>"

definition sample_Format :: "sample_format \<Rightarrow> sample_format" where
  "sample_Format pool = pool"

definition sample_WrapAsResponse :: "string \<Rightarrow> string" where
  "sample_WrapAsResponse message = message"

definition sample_NewServer ::
  "unit \<Rightarrow> (unit, string, string) DecodeRequestFunc \<Rightarrow> unit \<Rightarrow> unit \<Rightarrow> unit" where
  "sample_NewServer endpoint dec enc options = ()"

section \<open>The decision loop\<close>

lemma decide_cause: "decide n spans c evs = decide n spans c' evs"
proof (cases evs)
  case Nil
  then show ?thesis by simp
next
  case (Cons ev rest)
  then show ?thesis by (cases ev) (simp_all add: Let_def)
qed

lemma decide_failures_success:
  "list_all is_failure fs \<Longrightarrow> length fs < n \<Longrightarrow>
   decide n spans c (fs @ Succeeded s resp # evs)
     = Some (Some (MergeSpans resp (spans @ completed_spans fs @ [s])), None)"
proof (induction fs arbitrary: n spans c)
  case Nil
  then show ?case by simp
next
  case (Cons f fs)
  then obtain s' err where f: "f = Failed s' err" by (cases f) auto
  from Cons.prems have "list_all is_failure fs" "length fs < n - 1" "\<not> n \<le> 1" by auto
  with Cons.IH[of "n - 1"] f show ?case by (simp add: Let_def)
qed

lemma decide_failures_last:
  "list_all is_failure fs \<Longrightarrow> Suc (length fs) = n \<Longrightarrow>
   decide n spans c (fs @ Failed s err # evs)
     = Some (None, Some (NewSpanError err (spans @ completed_spans fs @ [s])))"
proof (induction fs arbitrary: n spans c)
  case Nil
  then show ?case by (simp add: Let_def)
next
  case (Cons f fs)
  then obtain s' err' where f: "f = Failed s' err'" by (cases f) auto
  from Cons.prems have "list_all is_failure fs" "Suc (length fs) = n - 1" "\<not> n \<le> 1" by auto
  with Cons.IH[of "n - 1"] f show ?case by (simp add: Let_def)
qed

lemma decide_unresolved_cancel:
  "decide n spans c evs = None \<Longrightarrow>
   decide n spans c (evs @ Cancelled x # rest)
     = Some (None, Some (NewSpanError x (spans @ completed_spans evs)))"
proof (induction evs arbitrary: n spans c)
  case Nil
  then show ?case by simp
next
  case (Cons ev evs)
  then show ?case by (cases ev) (auto simp: Let_def split: if_splits)
qed

lemma arrivals_append:
  "arrivals sp ctx cs request (ts @ us) = arrivals sp ctx cs request ts @ arrivals sp ctx cs request us"
  by (induction ts rule: finished.induct) (auto split: option.splits)

lemma arrivals_names:
  "map span_name (completed_spans (arrivals sp ctx cs request ts))
     = filter (\<lambda>name. map_of cs name \<noteq> None) (finished ts)"
  by (induction ts rule: finished.induct)
     (auto simp: attempt_def Start_def Finish_def Let_def split: option.splits sum.splits)

lemma arrivals_failures:
  "Fires \<notin> set ts \<Longrightarrow> w \<notin> set (finished ts) \<Longrightarrow>
   (\<forall>(name, e) \<in> set cs. name \<noteq> w \<longrightarrow> isl (e request)) \<Longrightarrow>
   list_all is_failure (arrivals sp ctx cs request ts)"
proof (induction ts rule: finished.induct)
  case 1
  then show ?case by simp
next
  case (2 name t ts)
  then show ?case
    by (auto simp: attempt_def Let_def split: option.splits sum.splits dest!: map_of_SomeD)
next
  case (3 ts)
  then show ?case by simp
qed

lemma arrivals_length:
  "Fires \<notin> set ts \<Longrightarrow>
   length (arrivals sp ctx cs request ts) = length (filter (\<lambda>name. map_of cs name \<noteq> None) (finished ts))"
  by (induction ts rule: finished.induct) (auto split: option.splits)

lemma configured_bound:
  assumes "distinct ns" "w \<notin> set ns" "map_of cs w = Some e"
  shows "length (filter (\<lambda>name. map_of cs name \<noteq> None) ns) < length cs"
proof -
  let ?f = "filter (\<lambda>name. map_of cs name \<noteq> None) ns"
  have d: "distinct ?f" using assms(1) by simp
  have sub: "set ?f \<subseteq> fst ` set cs - {w}"
    using assms(2) by (auto dest!: map_of_SomeD intro: rev_image_eqI)
  have w: "w \<in> fst ` set cs" using assms(3) by (auto dest!: map_of_SomeD intro: rev_image_eqI)
  have "length ?f = card (set ?f)" using distinct_card[OF d] by simp
  also have "\<dots> \<le> card (fst ` set cs - {w})" using sub by (intro card_mono) auto
  also have "\<dots> < card (fst ` set cs)" using w by (intro psubset_card_mono) auto
  also have "\<dots> \<le> length cs" by (metis card_image_le card_length le_trans List.finite_set)
  finally show ?thesis .
qed

lemma Spans_MergeSpans: "Spans (MergeSpans resp spans) = spans"
  by (cases resp) simp_all

lemma arrivals_winner:
  "map_of cs w = Some e \<Longrightarrow> e request = Inr resp \<Longrightarrow>
   arrivals sp ctx cs request (Finishes w t # ts)
     = Succeeded (Finish (Start sp (ctx_now ctx) w) t None) resp # arrivals sp ctx cs request ts"
  by (simp add: attempt_def Let_def)

lemma arrivals_loser:
  "map_of cs l = Some e \<Longrightarrow> e request = Inl x \<Longrightarrow>
   arrivals sp ctx cs request (Finishes l t # ts)
     = Failed (Finish (Start sp (ctx_now ctx) l) t (Some x)) x # arrivals sp ctx cs request ts"
  by (simp add: attempt_def Let_def)

lemma completed_spans_failures:
  "list_all is_failure fs \<Longrightarrow> length (completed_spans fs) = length fs"
  by (induction fs rule: completed_spans.induct) auto

lemma New_constructs:
  "New (Some sp) (Some (c # cs)) log = (Inr \<lparr>co_spanner = sp, co_endpoints = c # cs\<rparr>, log)"
  by (simp add: New_def)

section \<open>Properties of the fan-out coordinator\<close>

text \<open>
  Claim C1, as amended. Take a fan-out call in which exactly one configured attempt, \<open>w\<close>, returns
  success on the request and every other configured attempt fails, and in which the cancellation
  token does not fire before \<open>w\<close> returns (each attempt returning once). Then the callable resolves
  with a non-nil response and a nil error, and the last span exposed by the response is named
  \<open>w\<close> and carries no error.
\<close>

theorem success_resolves_with_winner_last:
  fixes co :: "('q, 'r, 'e) coordinator"
  assumes winner: "map_of (co_endpoints co) w = Some e" "e request = Inr resp"
      and others: "\<forall>(name, e') \<in> set (co_endpoints co). name \<noteq> w \<longrightarrow> isl (e' request)"
      and order: "ticks = before @ Finishes w t # after"
      and no_cancel: "Fires \<notin> set before"
      and once: "distinct (finished before)" "w \<notin> set (finished before)"
  shows "\<exists>v. fst (fanout co ctx request ticks log) = Some (Some v, None)
           \<and> Spans v \<noteq> [] \<and> span_name (last (Spans v)) = w
           \<and> span_error (last (Spans v)) = None"
proof -
  let ?cs = "co_endpoints co" and ?sp = "co_spanner co"
  let ?fs = "arrivals ?sp ctx ?cs request before"
  let ?s = "Finish (Start ?sp (ctx_now ctx) w) t None :: 'e span"
  have fails: "list_all is_failure ?fs"
    using no_cancel once(2) others by (rule arrivals_failures)
  have "length ?fs = length (filter (\<lambda>name. map_of ?cs name \<noteq> None) (finished before))"
    using no_cancel by (rule arrivals_length)
  also have "\<dots> < length ?cs"
    using once winner(1) by (rule configured_bound)
  finally have few: "length ?fs < length ?cs" .
  have "arrivals ?sp ctx ?cs request ticks
          = ?fs @ Succeeded ?s resp # arrivals ?sp ctx ?cs request after"
    unfolding order arrivals_append arrivals_winner[OF winner] by (rule refl)
  then have "fst (fanout co ctx request ticks log)
          = Some (Some (MergeSpans resp ([] @ completed_spans ?fs @ [?s])), None)"
    using decide_failures_success[OF fails few] by (simp add: fanout_def)
  moreover have "span_name ?s = w" "span_error ?s = None"
    by (simp_all add: Finish_def Start_def)
  ultimately show ?thesis
    by (simp add: Spans_MergeSpans)
qed

theorem success_resolves_with_winner_last_witness:
  "\<exists>v. fst (fanout scenario_B scenario_ctx ''expectedRequest''
               [Finishes ''a'' 5, Finishes ''b'' 50] []) = Some (Some v, None)
       \<and> Spans v \<noteq> [] \<and> span_name (last (Spans v)) = ''b''
       \<and> span_error (last (Spans v)) = None"
  by (rule success_resolves_with_winner_last
        [where w = "''b''" and before = "[Finishes ''a'' 5]" and after = "[]" and t = 50
           and e = "\<lambda>request. Inr (Mergeable ''ok'')" and resp = "Mergeable ''ok''"])
     (simp_all add: scenario_B_def)

text \<open>
  Claim C1 as stated has no condition on cancellation. The call of \<open>testNewTimeout\<close> with one
  service is a call in which exactly one attempt returns success, the token fires first, and the
  callable resolves with a nil response and the cancellation error.
\<close>

theorem success_after_cancellation_counterexample:
  "attempt_results scenario_slow ''expectedRequest''
     = [(''slow#0'', Inr (Mergeable ''expectedResponse''))]
   \<and> fst (fanout scenario_slow scenario_ctx ''expectedRequest'' [Fires, Finishes ''slow#0'' 9] [])
     = Some (None, Some \<lparr>Err = ''context canceled'', ErrSpans = []\<rparr>)"
  by (simp add: attempt_results_def scenario_slow_def scenario_ctx_def fanout_def NewSpanError_def)

text \<open>
  Claim C2, as amended. Take a fan-out call in which all \<open>N\<close> configured attempts return errors
  and the cancellation token does not fire before the last of them, \<open>l\<close>, has returned. Then the
  callable resolves with a nil response and a failure whose span sequence has length \<open>N\<close> and whose
  cause is the error returned by \<open>l\<close>, the attempt that completed last in real time, whatever its
  place in the configuration.
\<close>

theorem total_failure_reports_last_cause:
  fixes co :: "('q, 'r, 'e) coordinator"
  assumes keys: "distinct (map fst (co_endpoints co))"
      and all_fail: "\<forall>(name, e') \<in> set (co_endpoints co). isl (e' request)"
      and order: "ticks = before @ Finishes l t # after"
      and no_cancel: "Fires \<notin> set before"
      and once: "distinct (finished before)" "l \<notin> set (finished before)"
      and everyone: "set (finished before) \<union> {l} = fst ` set (co_endpoints co)"
      and final: "map_of (co_endpoints co) l = Some e" "e request = Inl x"
  shows "\<exists>se. fst (fanout co ctx request ticks log) = Some (None, Some se)
           \<and> Err se = x \<and> length (ErrSpans se) = length (co_endpoints co)"
proof -
  let ?cs = "co_endpoints co" and ?sp = "co_spanner co"
  let ?fs = "arrivals ?sp ctx ?cs request before"
  let ?s = "Finish (Start ?sp (ctx_now ctx) l) t (Some x)"
  have "\<forall>(name, e') \<in> set ?cs. name \<noteq> l \<longrightarrow> isl (e' request)"
    using all_fail by auto
  with no_cancel once(2) have fails: "list_all is_failure ?fs"
    by (rule arrivals_failures)
  have conf: "\<forall>name \<in> set (finished before). map_of ?cs name \<noteq> None"
  proof
    fix name assume "name \<in> set (finished before)"
    then have "name \<in> fst ` set ?cs" using everyone by auto
    then show "map_of ?cs name \<noteq> None" by (simp add: map_of_eq_None_iff)
  qed
  have "length ?fs = length (filter (\<lambda>name. map_of ?cs name \<noteq> None) (finished before))"
    using no_cancel by (rule arrivals_length)
  also have "\<dots> = length (finished before)"
    using conf by (simp add: filter_id_conv)
  also have "\<dots> = card (set (finished before))"
    using distinct_card[OF once(1)] by simp
  finally have len: "length ?fs = card (set (finished before))" .
  have "card (fst ` set ?cs) = length ?cs"
    using distinct_card[OF keys] by simp
  moreover have "card (set (finished before) \<union> {l}) = Suc (card (set (finished before)))"
    using once(2) by simp
  ultimately have cnt: "Suc (length ?fs) = length ?cs"
    using everyone len by simp
  have len_spans: "length (completed_spans ?fs) = length ?fs"
    using fails by (rule completed_spans_failures)
  have "arrivals ?sp ctx ?cs request ticks
          = ?fs @ Failed ?s x # arrivals ?sp ctx ?cs request after"
    unfolding order arrivals_append arrivals_loser[OF final] by (rule refl)
  then have "fst (fanout co ctx request ticks log)
          = Some (None, Some (NewSpanError x ([] @ completed_spans ?fs @ [?s])))"
    using decide_failures_last[OF fails cnt] by (simp add: fanout_def)
  then show ?thesis
    using cnt len_spans by (simp add: NewSpanError_def)
qed

theorem total_failure_reports_last_cause_witness:
  "\<exists>se. fst (fanout scenario_C scenario_ctx ''expectedRequest''
               [Finishes ''b'' 5, Finishes ''a'' 50] []) = Some (None, Some se)
       \<and> Err se = ''e1'' \<and> length (ErrSpans se) = 2"
  using total_failure_reports_last_cause
        [where co = scenario_C and l = "''a''" and before = "[Finishes ''b'' 5]" and after = "[]"
           and t = 50 and e = "\<lambda>request. Inl ''e1''" and x = "''e1''"
           and request = "''expectedRequest''" and ctx = scenario_ctx and log = "[]"
           and ticks = "[Finishes ''b'' 5, Finishes ''a'' 50]"]
  by (simp add: scenario_C_def numeral_2_eq_2)

text \<open>
  Claim C2 as stated has no condition on cancellation. When both attempts of scenario C fail but
  the token fires between them, the failure has one span and the cancellation cause.
\<close>

theorem total_failure_cut_short_counterexample:
  "attempt_results scenario_C ''expectedRequest'' = [(''a'', Inl ''e1''), (''b'', Inl ''e2'')]
   \<and> fst (fanout scenario_C scenario_ctx ''expectedRequest''
           [Finishes ''a'' 5, Fires, Finishes ''b'' 50] [])
     = Some (None, Some \<lparr>Err = ''context canceled'',
          ErrSpans = [\<lparr>span_name = ''a'', span_start = 0, span_duration = 5,
                       span_error = Some ''e1''\<rparr>]\<rparr>)"
  by (simp add: attempt_results_def scenario_C_def scenario_ctx_def fanout_def NewSpanError_def
        attempt_def Start_def Finish_def)

text \<open>
  Claim C3. If the cancellation token fires while the call is unresolved, the callable resolves
  with a nil response and a failure whose cause is the cancellation error and whose spans are
  exactly the spans of the attempts that completed before the signal, in completion order; they
  are named for the configured attempts that returned before it. In particular the span sequence
  is empty when the token fires before any attempt completes.
\<close>

theorem cancellation_resolves_with_spans_so_far:
  fixes co :: "('q, 'r, 'e) coordinator"
  assumes unresolved: "fst (fanout co ctx request before log) = None"
  shows "\<exists>se. fst (fanout co ctx request (before @ Fires # after) log') = Some (None, Some se)
           \<and> Err se = ctx_err ctx
           \<and> ErrSpans se = completed_spans (arrivals (co_spanner co) ctx (co_endpoints co) request before)
           \<and> map span_name (ErrSpans se)
               = filter (\<lambda>name. map_of (co_endpoints co) name \<noteq> None) (finished before)
           \<and> (finished before = [] \<longrightarrow> ErrSpans se = [])"
proof -
  let ?cs = "co_endpoints co" and ?sp = "co_spanner co"
  let ?evs = "arrivals ?sp ctx ?cs request before"
  have "decide (length ?cs) [] None ?evs = None"
    using unresolved by (simp add: fanout_def)
  then have "decide (length ?cs) [] None (?evs @ Cancelled (ctx_err ctx) # arrivals ?sp ctx ?cs request after)
               = Some (None, Some (NewSpanError (ctx_err ctx) ([] @ completed_spans ?evs)))"
    by (rule decide_unresolved_cancel)
  then have "fst (fanout co ctx request (before @ Fires # after) log')
               = Some (None, Some (NewSpanError (ctx_err ctx) (completed_spans ?evs)))"
    by (simp add: fanout_def arrivals_append)
  moreover have n: "map span_name (completed_spans ?evs)
               = filter (\<lambda>name. map_of ?cs name \<noteq> None) (finished before)"
    by (rule arrivals_names)
  moreover have "finished before = [] \<longrightarrow> completed_spans ?evs = []"
    using n by auto
  ultimately show ?thesis
    by (simp add: NewSpanError_def)
qed

theorem cancellation_resolves_with_spans_so_far_witness:
  "fst (fanout scenario_B scenario_ctx ''expectedRequest'' [Finishes ''a'' 5] []) = None
   \<and> (\<exists>se. fst (fanout scenario_B scenario_ctx ''expectedRequest''
                  ([Finishes ''a'' 5] @ Fires # [Finishes ''b'' 50]) []) = Some (None, Some se)
          \<and> Err se = ''context canceled'' \<and> map span_name (ErrSpans se) = [''a''])"
proof -
  have unresolved: "fst (fanout scenario_B scenario_ctx ''expectedRequest'' [Finishes ''a'' 5] []) = None"
    by (simp add: scenario_B_def fanout_def attempt_def)
  from cancellation_resolves_with_spans_so_far[OF unresolved, of "[Finishes ''b'' 50]" "[]"]
  obtain se where
    se: "fst (fanout scenario_B scenario_ctx ''expectedRequest''
               ([Finishes ''a'' 5] @ Fires # [Finishes ''b'' 50]) []) = Some (None, Some se)"
      "Err se = ctx_err scenario_ctx"
      "map span_name (ErrSpans se)
         = filter (\<lambda>name. map_of (co_endpoints scenario_B) name \<noteq> None) (finished [Finishes ''a'' 5])"
    by blast
  have "Err se = ''context canceled''"
    using se(2) by (simp add: scenario_ctx_def)
  moreover have "map span_name (ErrSpans se) = [''a'']"
    using se(3) by (simp add: scenario_B_def)
  ultimately show ?thesis
    using unresolved se(1) by (intro conjI exI[of _ se]) assumption+
qed

text \<open>
  Claim C4. Constructing the coordinator with a nil spanner, or with a nil or an empty endpoint
  mapping, fails at construction whatever the other argument is: no coordinator is returned and
  the log of endpoint invocations is left as it was.
\<close>

theorem misconfigured_construction_fails:
  "New None endpoints log = (Inl NoSpanner, log)
   \<and> isl (fst (New spanner None log)) \<and> snd (New spanner None log) = log
   \<and> isl (fst (New spanner (Some []) log)) \<and> snd (New spanner (Some []) log) = log"
  by (simp add: New_def split: option.splits)

section \<open>Properties of the HTTP binding\<close>

lemma deref_append_new: "deref (cells @ [x]) (Some (length cells)) = Some x"
  by (simp add: deref_def)

lemma decodeFanoutRequest_Some:
  "decodeFanoutRequest (Some d) = Returns adapter \<longleftrightarrow> adapter = decodeFanoutRequest_closure d"
  by (auto simp: decodeFanoutRequest_def)

lemma encodeComponentRequest_Some:
  "encodeComponentRequest rr (Some f) = Returns encoder
     \<longleftrightarrow> encoder = encodeComponentRequest_closure rr f"
  by (auto simp: encodeComponentRequest_def)

lemma NewComponents_loop_valid:
  fixes f :: "('c, 'v, 'e) EncodeRequestFunc"
  shows "list_all (valid_address Parse) urls \<Longrightarrow>
   \<exists>m. NewComponents_loop Parse RR NC (Some f) dec options components urls = Returns (Some m, None)
     \<and> dom m = dom components \<union> set urls
     \<and> (\<forall>raw target. raw \<in> set urls \<and> Parse raw = Inr target \<longrightarrow>
           m raw = Some (NC ''GET'' target (encodeComponentRequest_closure RR f) dec options))
     \<and> (\<forall>raw. raw \<notin> set urls \<longrightarrow> m raw = components raw)"
proof (induction urls arbitrary: components)
  case Nil
  then show ?case by simp
next
  case (Cons raw rest)
  from Cons.prems obtain target where t: "Parse raw = Inr target" "Scheme target \<noteq> []" "RawQuery target = []"
    by (auto simp: valid_address_def split: sum.splits)
  let ?c = "components(raw \<mapsto> NC ''GET'' target (encodeComponentRequest_closure RR f) dec options)"
  from Cons.prems have "list_all (valid_address Parse) rest" by simp
  from Cons.IH[OF this, of ?c] obtain m where
    m: "NewComponents_loop Parse RR NC (Some f) dec options ?c rest = Returns (Some m, None)"
       "dom m = dom ?c \<union> set rest"
       "\<forall>raw target. raw \<in> set rest \<and> Parse raw = Inr target \<longrightarrow>
           m raw = Some (NC ''GET'' target (encodeComponentRequest_closure RR f) dec options)"
       "\<forall>raw. raw \<notin> set rest \<longrightarrow> m raw = ?c raw"
    by blast
  have run: "NewComponents_loop Parse RR NC (Some f) dec options components (raw # rest) = Returns (Some m, None)"
    using t m(1) by (simp add: encodeComponentRequest_def)
  have d: "dom m = dom components \<union> set (raw # rest)"
    using m(2) by auto
  have v: "\<forall>raw' target'. raw' \<in> set (raw # rest) \<and> Parse raw' = Inr target' \<longrightarrow>
           m raw' = Some (NC ''GET'' target' (encodeComponentRequest_closure RR f) dec options)"
    using m(3) m(4) t(1) by (metis fun_upd_same set_ConsD sum.inject(2))
  have o: "\<forall>raw'. raw' \<notin> set (raw # rest) \<longrightarrow> m raw' = components raw'"
    using m(4) by simp
  show ?case using run d v o by blast
qed

lemma NewComponents_loop_invalid:
  fixes f :: "('c, 'v, 'e) EncodeRequestFunc"
  shows "\<not> list_all (valid_address Parse) urls \<Longrightarrow>
   \<exists>err. NewComponents_loop Parse RR NC (Some f) dec options components urls = Returns (None, Some err)"
proof (induction urls arbitrary: components)
  case Nil
  then show ?case by simp
next
  case (Cons raw rest)
  show ?case
  proof (cases "valid_address Parse raw")
    case True
    then have "\<not> list_all (valid_address Parse) rest" using Cons.prems by simp
    from Cons.IH[OF this] True show ?thesis
      by (auto simp: valid_address_def encodeComponentRequest_def split: sum.splits)
  next
    case False
    then show ?thesis
      by (auto simp: valid_address_def split: sum.splits)
  qed
qed

lemma NewComponents_loop_prefix:
  fixes f :: "('c, 'v, 'e) EncodeRequestFunc"
  shows "list_all (valid_address Parse) before \<Longrightarrow>
   \<exists>components'. NewComponents_loop Parse RR NC (Some f) dec options components (before @ urls)
      = NewComponents_loop Parse RR NC (Some f) dec options components' urls"
proof (induction before arbitrary: components)
  case Nil
  then show ?case by auto
next
  case (Cons raw rest)
  then show ?case
    by (auto simp: valid_address_def encodeComponentRequest_def split: sum.splits)
qed

lemma NewComponents_reaches:
  fixes hook :: "('c, 'v, 'e) EncodeRequestFunc option"
  assumes "list_all (valid_address Parse) before" and "before = [] \<or> hook \<noteq> None"
  shows "\<exists>components'. NewComponents Parse RR NC (before @ urls) hook dec opts
          = NewComponents_loop Parse RR NC hook dec opts components' urls"
proof (cases hook)
  case None
  with assms(2) have "before = []" by simp
  then show ?thesis by (auto simp: NewComponents_def)
next
  case (Some f)
  from NewComponents_loop_prefix[OF assms(1), of RR NC f dec opts Map.empty urls]
  show ?thesis unfolding NewComponents_def Some by auto
qed

lemma sample_valid:
  "valid_address sample_Parse ''https://host1:8080''"
  "valid_address sample_Parse ''http://host2''"
  "\<not> valid_address sample_Parse ''host3''"
  by (simp_all add: valid_address_def sample_Parse_def sample_target_def)

text \<open>
  Claim C5, as amended. A nil request-decode hook given to the handler factory panics and a nil
  encode hook given to \<open>encodeComponentRequest\<close> panics, so that \<open>NewComponents\<close> with a nil encode
  hook panics when its first address is valid. A target address that is missing a scheme or
  carries a query does not panic: when the loop reaches it (it is the first address, or the
  addresses before it are valid and the encode hook is not nil), \<open>NewComponents\<close> returns a nil
  mapping and the error made by \<open>fmt.Errorf\<close>.
\<close>

theorem construction_failures:
  fixes hook :: "('c, 'v, 'e) EncodeRequestFunc option"
  shows "NewHandler NewServer endpoint None enc options = Panics ''The entity decoder cannot be nil''
   \<and> encodeComponentRequest RR (None :: ('c, 'v, 'e) EncodeRequestFunc option)
        = Panics ''The entity encoder cannot be nil''
   \<and> (valid_address Parse raw \<longrightarrow>
        NewComponents Parse RR NC (raw # rest) (None :: ('c, 'v, 'e) EncodeRequestFunc option) dec opts
          = Panics ''The entity encoder cannot be nil'')
   \<and> (list_all (valid_address Parse) before \<and> (before = [] \<or> hook \<noteq> None)
        \<and> Parse raw = Inr target \<and> Scheme target = [] \<longrightarrow>
        NewComponents Parse RR NC (before @ raw # rest) hook dec opts
          = Returns (None, Some (Errorf (''Endpoint '' @ [CHR 0x27] @ raw @ [CHR 0x27]
                                          @ '' does not specify a scheme''))))
   \<and> (list_all (valid_address Parse) before \<and> (before = [] \<or> hook \<noteq> None)
        \<and> Parse raw = Inr target \<and> Scheme target \<noteq> [] \<and> RawQuery target \<noteq> [] \<longrightarrow>
        NewComponents Parse RR NC (before @ raw # rest) hook dec opts
          = Returns (None, Some (Errorf (''Endpoint '' @ [CHR 0x27] @ raw @ [CHR 0x27]
                                          @ '' specifies a query string''))))"
proof -
  have 1: "NewHandler NewServer endpoint None enc options = Panics ''The entity decoder cannot be nil''"
    by (simp add: NewHandler_def decodeFanoutRequest_def)
  have 2: "encodeComponentRequest RR (None :: ('c, 'v, 'e) EncodeRequestFunc option)
        = Panics ''The entity encoder cannot be nil''"
    by (simp add: encodeComponentRequest_def)
  have 3: "valid_address Parse raw \<longrightarrow>
        NewComponents Parse RR NC (raw # rest) (None :: ('c, 'v, 'e) EncodeRequestFunc option) dec opts
          = Panics ''The entity encoder cannot be nil''"
    by (auto simp: NewComponents_def valid_address_def encodeComponentRequest_def split: sum.splits)
  note reach = NewComponents_reaches[of Parse before hook RR NC "raw # rest" dec opts]
  have 4: "list_all (valid_address Parse) before \<and> (before = [] \<or> hook \<noteq> None)
        \<and> Parse raw = Inr target \<and> Scheme target = [] \<longrightarrow>
        NewComponents Parse RR NC (before @ raw # rest) hook dec opts
          = Returns (None, Some (Errorf (''Endpoint '' @ [CHR 0x27] @ raw @ [CHR 0x27]
                                          @ '' does not specify a scheme'')))"
    using reach by auto
  have 5: "list_all (valid_address Parse) before \<and> (before = [] \<or> hook \<noteq> None)
        \<and> Parse raw = Inr target \<and> Scheme target \<noteq> [] \<and> RawQuery target \<noteq> [] \<longrightarrow>
        NewComponents Parse RR NC (before @ raw # rest) hook dec opts
          = Returns (None, Some (Errorf (''Endpoint '' @ [CHR 0x27] @ raw @ [CHR 0x27]
                                          @ '' specifies a query string'')))"
    using reach by auto
  show ?thesis using 1 2 3 4 5 by blast
qed

theorem construction_failures_witness:
  "NewComponents sample_Parse sample_ResolveReference sample_NewClient
        [''https://host1:8080'', ''http://host2''] None () ()
      = Panics ''The entity encoder cannot be nil''
   \<and> NewComponents sample_Parse sample_ResolveReference sample_NewClient
        [''https://host1:8080'', ''host3'', ''http://host2''] (Some sample_enc) () ()
      = Returns (None, Some (Errorf (''Endpoint '' @ [CHR 0x27] @ ''host3'' @ [CHR 0x27]
                                      @ '' does not specify a scheme'')))
   \<and> NewComponents sample_Parse sample_ResolveReference sample_NewClient
        [''http://host4?x=1''] None () ()
      = Returns (None, Some (Errorf (''Endpoint '' @ [CHR 0x27] @ ''http://host4?x=1'' @ [CHR 0x27]
                                      @ '' specifies a query string'')))"
proof -
  have p3: "sample_Parse ''host3'' = Inr (sample_target\<lparr>Scheme := [], Host := [], Path := ''host3''\<rparr>)"
    and p4: "sample_Parse ''http://host4?x=1''
               = Inr (sample_target\<lparr>Scheme := ''http'', Host := ''host4'', RawQuery := ''x=1''\<rparr>)"
    by (simp_all add: sample_Parse_def)
  note cf = construction_failures
              [where Parse = sample_Parse and RR = sample_ResolveReference
                 and NC = sample_NewClient and dec = "()" and opts = "()"
                 and NewServer = sample_NewServer
                 and endpoint = "()" and enc = "()" and options = "()"]
  have 1: "NewComponents sample_Parse sample_ResolveReference sample_NewClient
        [''https://host1:8080'', ''http://host2''] None () ()
      = Panics ''The entity encoder cannot be nil''"
    using cf[where raw = "''https://host1:8080''" and rest = "[''http://host2'']"
               and before = "[]" and hook = "None" and target = sample_target]
    by (simp add: sample_valid)
  have 2: "NewComponents sample_Parse sample_ResolveReference sample_NewClient
        [''https://host1:8080'', ''host3'', ''http://host2''] (Some sample_enc) () ()
      = Returns (None, Some (Errorf (''Endpoint '' @ [CHR 0x27] @ ''host3'' @ [CHR 0x27]
                                      @ '' does not specify a scheme'')))"
    using cf[where before = "[''https://host1:8080'']" and raw = "''host3''"
               and rest = "[''http://host2'']" and hook = "Some sample_enc"
               and target = "sample_target\<lparr>Scheme := [], Host := [], Path := ''host3''\<rparr>"]
    by (simp add: sample_valid p3)
  have 3: "NewComponents sample_Parse sample_ResolveReference sample_NewClient
        [''http://host4?x=1''] None () ()
      = Returns (None, Some (Errorf (''Endpoint '' @ [CHR 0x27] @ ''http://host4?x=1'' @ [CHR 0x27]
                                      @ '' specifies a query string'')))"
    using cf[where before = "[]" and raw = "''http://host4?x=1''"
               and rest = "[]" and hook = "None"
               and target = "sample_target\<lparr>Scheme := ''http'', Host := ''host4'', RawQuery := ''x=1''\<rparr>"]
    by (simp add: p4)
  show ?thesis using 1 2 3 by (intro conjI)
qed

text \<open>
  Claim C5 as stated says that an address without a scheme, or with a query, makes construction
  panic. \<open>NewComponents\<close> returns an error for both.
\<close>

theorem invalid_target_returns_error_counterexample:
  "NewComponents sample_Parse sample_ResolveReference sample_NewClient
        [''host3''] (Some sample_enc) () ()
      = Returns (None, Some (Errorf (''Endpoint '' @ [CHR 0x27] @ ''host3'' @ [CHR 0x27]
                                      @ '' does not specify a scheme'')))
   \<and> NewComponents sample_Parse sample_ResolveReference sample_NewClient
        [''http://host4?x=1''] (Some sample_enc) () ()
      = Returns (None, Some (Errorf (''Endpoint '' @ [CHR 0x27] @ ''http://host4?x=1'' @ [CHR 0x27]
                                      @ '' specifies a query string'')))"
  by (simp add: NewComponents_def sample_Parse_def sample_target_def)

text \<open>
  Claim C6. Let the entity-decode hook return (entity, error) on an inbound request whose URL is
  set. The request adapter returns an error exactly when the hook does, and then it returns that
  same error, a nil value and the store as the hook left it. When the hook succeeds the adapter
  returns a fanout request whose entity is the hook's and whose relative URL is the inbound URL
  with Scheme and Host empty and User nil, path and query retained.
\<close>

theorem decodeFanoutRequest_result:
  fixes d :: "('c, 'v, 'e) DecodeRequestFunc"
  assumes adapter: "decodeFanoutRequest (Some d) = Returns adapter"
      and hook: "d ctx orig h = (Returns (ent, err), h1)"
      and req: "deref (request_cells h1) orig = Some req"
      and url: "deref (url_cells h1) (URL req) = Some u"
  shows "((\<exists>v e h'. adapter ctx orig h = (Returns (v, Some e), h')) \<longleftrightarrow> err \<noteq> None)
       \<and> (err \<noteq> None \<longrightarrow> adapter ctx orig h = (Returns (NilValue, err), h1))
       \<and> (err = None \<longrightarrow>
            (\<exists>pf fr rel h'. adapter ctx orig h = (Returns (FanoutRequestPtr pf, None), h')
               \<and> deref (fanoutRequest_cells h') (Some pf) = Some fr
               \<and> entity fr = ent
               \<and> deref (url_cells h') (relativeURL fr) = Some rel
               \<and> rel = u\<lparr>Scheme := [], Host := [], User := None\<rparr>
               \<and> Path rel = Path u \<and> RawPath rel = RawPath u \<and> RawQuery rel = RawQuery u))"
proof -
  have a: "adapter = decodeFanoutRequest_closure d"
    using adapter by (simp add: decodeFanoutRequest_Some)
  show ?thesis
  proof (cases err)
    case None
    then show ?thesis
      using hook req url
      by (simp add: a decodeFanoutRequest_closure_def Let_def new_url_def new_fanoutRequest_def
            deref_append_new)
  next
    case (Some e)
    then show ?thesis
      using hook by (simp add: a decodeFanoutRequest_closure_def)
  qed
qed

theorem decodeFanoutRequest_result_witness:
  "(\<exists>pf fr h'. decodeFanoutRequest_closure sample_dec () (Some 0) sample_heap
                  = (Returns (FanoutRequestPtr pf, None), h')
        \<and> deref (fanoutRequest_cells h') (Some pf) = Some fr
        \<and> entity fr = Value ''entity''
        \<and> deref (url_cells h') (relativeURL fr)
            = Some (sample_url\<lparr>Scheme := [], Host := [], User := None\<rparr>))
   \<and> decodeFanoutRequest_closure sample_failing_dec () (Some 0) sample_heap
        = (Returns (NilValue, Some ''malformed entity''), sample_heap)"
proof -
  have r: "deref (request_cells sample_heap) (Some 0) = Some sample_request"
    and u: "deref (url_cells sample_heap) (URL sample_request) = Some sample_url"
    by (simp_all add: sample_heap_def sample_request_def deref_def)
  have ok: "decodeFanoutRequest (Some sample_dec) = Returns (decodeFanoutRequest_closure sample_dec)"
    and ko: "decodeFanoutRequest (Some sample_failing_dec)
               = Returns (decodeFanoutRequest_closure sample_failing_dec)"
    by (simp_all add: decodeFanoutRequest_def)
  have hook: "sample_dec () (Some 0) sample_heap = (Returns (Value ''entity'', None), sample_heap)"
    and hook': "sample_failing_dec () (Some 0) sample_heap
                  = (Returns (NilValue, Some ''malformed entity''), sample_heap)"
    by (simp_all add: sample_dec_def sample_failing_dec_def)
  from decodeFanoutRequest_result[OF ok hook r u] decodeFanoutRequest_result[OF ko hook' r u]
  show ?thesis by auto
qed

text \<open>
  Claim C7. When a component request is encoded from a fanout request, the encode hook is called
  with the outbound request pointer and the decoded entity of the fanout request (not the fanout
  request), on a store in which the outbound request has the method of the original inbound
  request and a URL that is \<open>ResolveReference\<close> of the component's base URL and the relative URL;
  the fanout request itself is unchanged.
\<close>

theorem encodeComponentRequest_call:
  fixes f :: "('c, 'v, 'e) EncodeRequestFunc"
  assumes encoder: "encodeComponentRequest ResolveReference (Some f) = Returns encoder"
      and fr: "deref (fanoutRequest_cells h) (Some pf) = Some fr"
      and orig: "deref (request_cells h) (original fr) = Some orig"
      and component: "deref (request_cells h) (Some pc) = Some outb"
      and base: "deref (url_cells h) (URL outb) = Some base"
      and rel: "deref (url_cells h) (relativeURL fr) = Some rel"
  shows "\<exists>h3 pu. encoder ctx (Some pc) (FanoutRequestPtr pf) h = f ctx (Some pc) (entity fr) h3
           \<and> deref (request_cells h3) (Some pc)
               = Some (outb\<lparr>Method := Method orig, URL := Some pu\<rparr>)
           \<and> deref (url_cells h3) (Some pu) = Some (ResolveReference base rel)
           \<and> deref (fanoutRequest_cells h3) (Some pf) = Some fr"
proof -
  have e: "encoder = encodeComponentRequest_closure ResolveReference f"
    using encoder by (simp add: encodeComponentRequest_Some)
  have pc: "pc < length (request_cells h)" "request_cells h ! pc = outb"
    using component by (auto simp: deref_def split: if_splits)
  let ?h1 = "update_request pc (\<lambda>c. c\<lparr>Method := Method orig\<rparr>) h"
  have h1: "url_cells ?h1 = url_cells h" "URL (request_cells ?h1 ! pc) = URL outb"
    using pc by (simp_all add: update_request_def)
  let ?pu = "length (url_cells h)"
  let ?h2 = "?h1\<lparr>url_cells := url_cells h @ [ResolveReference base rel]\<rparr>"
  let ?h3 = "update_request pc (\<lambda>c. c\<lparr>URL := Some ?pu\<rparr>) ?h2"
  have run: "encoder ctx (Some pc) (FanoutRequestPtr pf) h = f ctx (Some pc) (entity fr) ?h3"
    using fr orig pc base rel
    by (simp add: e encodeComponentRequest_closure_def Let_def h1 new_url_def)
  have "deref (request_cells ?h3) (Some pc) = Some (outb\<lparr>Method := Method orig, URL := Some ?pu\<rparr>)"
    using pc by (simp add: update_request_def deref_def)
  moreover have "deref (url_cells ?h3) (Some ?pu) = Some (ResolveReference base rel)"
    by (simp add: update_request_def deref_append_new)
  moreover have "deref (fanoutRequest_cells ?h3) (Some pf) = Some fr"
    using fr by (simp add: update_request_def)
  ultimately show ?thesis
    using run by blast
qed

theorem encodeComponentRequest_call_witness:
  "\<exists>h3 pu. encodeComponentRequest_closure sample_ResolveReference sample_enc ()
              (Some 1) (FanoutRequestPtr 0) sample_decoded_heap = (Returns None, h3)
       \<and> deref (request_cells h3) (Some 1) = Some (sample_component\<lparr>Method := ''POST'', URL := Some pu\<rparr>)
       \<and> deref (url_cells h3) (Some pu)
           = Some (sample_target\<lparr>Path := ''/api/v2/device'', RawQuery := ''id=7''\<rparr>)"
proof -
  let ?fr = "\<lparr>original = Some 0, relativeURL = Some 2, entity = Value ''entity''\<rparr> :: string fanoutRequest"
  have e: "encodeComponentRequest sample_ResolveReference (Some sample_enc)
             = Returns (encodeComponentRequest_closure sample_ResolveReference sample_enc)"
    by (simp add: encodeComponentRequest_def)
  have fr: "deref (fanoutRequest_cells sample_decoded_heap) (Some 0) = Some ?fr"
    and orig: "deref (request_cells sample_decoded_heap) (original ?fr) = Some sample_request"
    and comp: "deref (request_cells sample_decoded_heap) (Some 1) = Some sample_component"
    and base: "deref (url_cells sample_decoded_heap) (URL sample_component) = Some sample_target"
    and rel: "deref (url_cells sample_decoded_heap) (relativeURL ?fr)
                = Some (sample_url\<lparr>Scheme := [], Host := [], User := None\<rparr>)"
    by (simp_all add: sample_decoded_heap_def sample_component_def deref_def)
  from encodeComponentRequest_call[OF e fr orig comp base rel, of "()"]
  show ?thesis
    by (auto simp: sample_enc_def sample_request_def sample_ResolveReference_def
          sample_url_def sample_target_def)
qed

text \<open>
  Claim C8, as amended. With an encode hook that is not nil: if every address of the list is
  valid, \<open>NewComponents\<close> returns a mapping whose keys are exactly the supplied addresses, each
  mapped to the client endpoint built for its parsed target, and a nil error; if some address is
  not valid it returns a nil mapping and a non-nil error.
\<close>

theorem NewComponents_one_endpoint_per_address:
  fixes f :: "('c, 'v, 'e) EncodeRequestFunc"
  shows "(list_all (valid_address Parse) urls \<longrightarrow>
            (\<exists>m. NewComponents Parse RR NC urls (Some f) dec options = Returns (Some m, None)
               \<and> dom m = set urls
               \<and> (\<forall>raw target. raw \<in> set urls \<and> Parse raw = Inr target \<longrightarrow>
                     m raw = Some (NC ''GET'' target (encodeComponentRequest_closure RR f) dec options))))
       \<and> (\<not> list_all (valid_address Parse) urls \<longrightarrow>
            (\<exists>err. NewComponents Parse RR NC urls (Some f) dec options = Returns (None, Some err)))"
proof (cases "list_all (valid_address Parse) urls")
  case True
  from NewComponents_loop_valid[OF this, of RR NC f dec options Map.empty] True
  show ?thesis unfolding NewComponents_def by auto
next
  case False
  from NewComponents_loop_invalid[OF this, of RR NC f dec options Map.empty] False
  show ?thesis unfolding NewComponents_def by auto
qed

theorem NewComponents_one_endpoint_per_address_witness:
  "(\<exists>m. NewComponents sample_Parse sample_ResolveReference sample_NewClient
            [''https://host1:8080'', ''http://host2''] (Some sample_enc) () ()
          = Returns (Some m, None)
        \<and> dom m = {''https://host1:8080'', ''http://host2''}
        \<and> m ''https://host1:8080'' = Some (''GET'', sample_target))
   \<and> (\<exists>err. NewComponents sample_Parse sample_ResolveReference sample_NewClient
            [''https://host1:8080'', ''host3''] (Some sample_enc) () ()
          = Returns (None, Some err))"
proof -
  have good: "list_all (valid_address sample_Parse) [''https://host1:8080'', ''http://host2'']"
    and bad: "\<not> list_all (valid_address sample_Parse) [''https://host1:8080'', ''host3'']"
    by (simp_all add: sample_valid)
  have p: "sample_Parse ''https://host1:8080'' = Inr sample_target"
    by (simp add: sample_Parse_def)
  note good_case = NewComponents_one_endpoint_per_address
         [of sample_Parse "[''https://host1:8080'', ''http://host2'']"
             sample_ResolveReference sample_NewClient sample_enc "()" "()"]
  from good_case[THEN conjunct1, THEN mp, OF good] obtain m where
    m1: "NewComponents sample_Parse sample_ResolveReference sample_NewClient
            [''https://host1:8080'', ''http://host2''] (Some sample_enc) () () = Returns (Some m, None)"
    and m2: "dom m = set [''https://host1:8080'', ''http://host2'']"
    and m3: "\<forall>raw target. raw \<in> set [''https://host1:8080'', ''http://host2'']
                \<and> sample_Parse raw = Inr target \<longrightarrow>
              m raw = Some (sample_NewClient ''GET'' target
                    (encodeComponentRequest_closure sample_ResolveReference sample_enc) () ())"
    by (elim exE conjE)
  have m4: "m ''https://host1:8080'' = Some (''GET'', sample_target)"
    using m3[rule_format, of "''https://host1:8080''" sample_target] p
    by (simp add: sample_NewClient_def)
  have m5: "dom m = {''https://host1:8080'', ''http://host2''}"
    using m2 by simp
  have 1: "\<exists>m. NewComponents sample_Parse sample_ResolveReference sample_NewClient
            [''https://host1:8080'', ''http://host2''] (Some sample_enc) () ()
          = Returns (Some m, None)
        \<and> dom m = {''https://host1:8080'', ''http://host2''}
        \<and> m ''https://host1:8080'' = Some (''GET'', sample_target)"
    using m1 m5 m4 by (intro exI[of _ m] conjI)
  note bad_case = NewComponents_one_endpoint_per_address
         [of sample_Parse "[''https://host1:8080'', ''host3'']"
             sample_ResolveReference sample_NewClient sample_enc "()" "()"]
  have 2: "\<exists>err. NewComponents sample_Parse sample_ResolveReference sample_NewClient
            [''https://host1:8080'', ''host3''] (Some sample_enc) () ()
          = Returns (None, Some err)"
    by (rule bad_case[THEN conjunct2, THEN mp, OF bad])
  show ?thesis using 1 2 by (rule conjI)
qed

text \<open>
  Claim C8 as stated holds for every encode hook. With a nil hook and one valid address
  \<open>NewComponents\<close> panics.
\<close>

theorem NewComponents_nil_encoder_counterexample:
  "valid_address sample_Parse ''https://host1:8080''
   \<and> NewComponents sample_Parse sample_ResolveReference sample_NewClient
        [''https://host1:8080''] None () ()
      = Panics ''The entity encoder cannot be nil''"
  by (simp add: sample_valid NewComponents_def sample_Parse_def sample_target_def
        encodeComponentRequest_def)

text \<open>
  Claim C10. Whatever the entity-decode hook does to the store, the request adapter adds only
  fresh cells to it: the request cells are those the hook left, so every field of the original
  request is unchanged, every URL that existed (the inbound one with its Scheme, Host and User
  included) is unchanged, and the fanout request that is returned points to the original request
  and to a relative URL at a new address.
\<close>

theorem decodeFanoutRequest_frame:
  fixes d :: "('c, 'v, 'e) DecodeRequestFunc"
  assumes adapter: "decodeFanoutRequest (Some d) = Returns adapter"
      and hook: "d ctx orig h = (r1, h1)"
      and call: "adapter ctx orig h = (r, h')"
  shows "request_cells h' = request_cells h1
       \<and> take (length (url_cells h1)) (url_cells h') = url_cells h1
       \<and> take (length (fanoutRequest_cells h1)) (fanoutRequest_cells h') = fanoutRequest_cells h1
       \<and> (\<forall>req. deref (request_cells h1) orig = Some req \<longrightarrow>
             deref (request_cells h') orig = Some req
             \<and> (\<forall>u. deref (url_cells h1) (URL req) = Some u \<longrightarrow>
                    deref (url_cells h') (URL req) = Some u))
       \<and> (\<forall>pf. r = Returns (FanoutRequestPtr pf, None) \<longrightarrow>
             (\<exists>fr pu. deref (fanoutRequest_cells h') (Some pf) = Some fr
                \<and> original fr = orig \<and> relativeURL fr = Some pu
                \<and> length (url_cells h1) \<le> pu))"
proof -
  have a: "adapter = decodeFanoutRequest_closure d"
    using adapter by (simp add: decodeFanoutRequest_Some)
  have frame: "request_cells h' = request_cells h1
       \<and> (\<exists>us. url_cells h' = url_cells h1 @ us)
       \<and> (\<exists>fs. fanoutRequest_cells h' = fanoutRequest_cells h1 @ fs)"
    using call hook
    by (auto simp: a decodeFanoutRequest_closure_def Let_def new_url_def new_fanoutRequest_def
          split: result.splits option.splits if_splits prod.splits)
  then obtain us fs where us: "url_cells h' = url_cells h1 @ us"
    and fs: "fanoutRequest_cells h' = fanoutRequest_cells h1 @ fs"
    and rq: "request_cells h' = request_cells h1" by blast
  have old: "\<And>p x. deref (url_cells h1) p = Some x \<Longrightarrow> deref (url_cells h') p = Some x"
    unfolding us by (auto simp: deref_def nth_append split: option.splits if_splits)
  have fresh: "\<forall>pf. r = Returns (FanoutRequestPtr pf, None) \<longrightarrow>
             (\<exists>fr pu. deref (fanoutRequest_cells h') (Some pf) = Some fr
                \<and> original fr = orig \<and> relativeURL fr = Some pu
                \<and> length (url_cells h1) \<le> pu)"
    using call hook
    by (auto simp: a decodeFanoutRequest_closure_def Let_def new_url_def new_fanoutRequest_def
          deref_append_new
          split: result.splits option.splits if_splits prod.splits)
  show ?thesis
    using rq us fs old fresh by simp
qed

theorem decodeFanoutRequest_frame_witness:
  "request_cells (snd (decodeFanoutRequest_closure sample_dec () (Some 0) sample_heap))
     = [sample_request, sample_component]
   \<and> deref (url_cells (snd (decodeFanoutRequest_closure sample_dec () (Some 0) sample_heap)))
       (URL sample_request) = Some sample_url
   \<and> (\<exists>fr pu. deref (fanoutRequest_cells
                    (snd (decodeFanoutRequest_closure sample_dec () (Some 0) sample_heap))) (Some 0)
                 = Some fr
        \<and> original fr = Some 0 \<and> relativeURL fr = Some pu \<and> 2 \<le> pu)"
proof -
  let ?res = "decodeFanoutRequest_closure sample_dec () (Some 0) sample_heap"
  have r: "deref (request_cells sample_heap) (Some 0) = Some sample_request"
    and u: "deref (url_cells sample_heap) (URL sample_request) = Some sample_url"
    by (simp_all add: sample_heap_def sample_request_def deref_def)
  have ok: "decodeFanoutRequest (Some sample_dec) = Returns (decodeFanoutRequest_closure sample_dec)"
    by (simp add: decodeFanoutRequest_def)
  have hook: "sample_dec () (Some 0) sample_heap = (Returns (Value ''entity'', None), sample_heap)"
    by (simp add: sample_dec_def)
  have res: "?res = (fst ?res, snd ?res)" by simp
  have val: "fst ?res = Returns (FanoutRequestPtr 0, None)"
    by (simp add: decodeFanoutRequest_closure_def sample_dec_def sample_heap_def
          sample_request_def deref_def Let_def new_url_def new_fanoutRequest_def)
  from decodeFanoutRequest_frame[OF ok hook res] r u val
  show ?thesis by (auto simp: sample_heap_def)
qed

section \<open>Properties of the response decoders\<close>

text \<open>
  Claim C9, as amended. For a response with status 200 whose body was read:
  \<open>ClientDecodeResponseBody\<close> returns a bad-request error when the content type cannot be parsed,
  an unsupported-media-type error when it parses to a format other than the pool's, an internal
  error when the content type matches and the body decoder fails, and a response exactly when the
  content type matches and the body decoder succeeds. \<open>ClientDecodeResponseHeaders\<close> does not look
  at the content type: it returns a bad-request error when the headers cannot be parsed and the
  wrapped message otherwise.
\<close>

theorem response_decoders_classify:
  assumes ok: "StatusCode r = StatusOK"
      and body: "ResponseBody r = Inr body"
      and ct: "ct = Header_Get (ResponseHeader r) ''Content-Type''"
  shows "(\<forall>err. FormatFromContentType ct = Inl err \<longrightarrow>
            ClientDecodeResponseBody FormatFromContentType Format DecodeResponseBytes pool r
              = (None, Some (E \<lparr>Code = StatusBadRequest, Text = err\<rparr>)))
       \<and> (\<forall>fmt. FormatFromContentType ct = Inr fmt \<and> fmt \<noteq> Format pool \<longrightarrow>
            ClientDecodeResponseBody FormatFromContentType Format DecodeResponseBytes pool r
              = (None, Some (E \<lparr>Code = StatusUnsupportedMediaType,
                               Text = ''Unexpected response Content-Type: '' @ ct\<rparr>)))
       \<and> (\<forall>err. FormatFromContentType ct = Inr (Format pool)
              \<and> DecodeResponseBytes body pool = Inl err \<longrightarrow>
            ClientDecodeResponseBody FormatFromContentType Format DecodeResponseBytes pool r
              = (None, Some (E \<lparr>Code = StatusInternalServerError, Text = err\<rparr>)))
       \<and> (\<forall>resp. fst (ClientDecodeResponseBody FormatFromContentType Format DecodeResponseBytes pool r)
                      = Some resp
              \<longleftrightarrow> FormatFromContentType ct = Inr (Format pool)
                  \<and> DecodeResponseBytes body pool = Inr resp)
       \<and> ClientDecodeResponseHeaders NewMessageFromHeaders WrapAsResponse r
           = (case NewMessageFromHeaders (ResponseHeader r) body of
                Inl err \<Rightarrow> (None, Some (E \<lparr>Code = StatusBadRequest, Text = err\<rparr>))
              | Inr message \<Rightarrow> (Some (WrapAsResponse message), None))"
  using ok body ct
  by (auto simp: ClientDecodeResponseBody_def ClientDecodeResponseHeaders_def Let_def
        split: sum.splits)

theorem response_decoders_classify_witness:
  "ClientDecodeResponseBody sample_FormatFromContentType sample_Format sample_DecodeResponseBytes
       JSON (sample_response ''text/plain'' ''{}'')
     = (None, Some (E \<lparr>Code = 400, Text = ''Invalid WRP content type: text/plain''\<rparr>))
   \<and> ClientDecodeResponseBody sample_FormatFromContentType sample_Format sample_DecodeResponseBytes
       JSON (sample_response ''application/msgpack'' ''{}'')
     = (None, Some (E \<lparr>Code = 415,
                     Text = ''Unexpected response Content-Type: application/msgpack''\<rparr>))
   \<and> ClientDecodeResponseBody sample_FormatFromContentType sample_Format sample_DecodeResponseBytes
       JSON (sample_response ''application/json'' [])
     = (None, Some (E \<lparr>Code = 500, Text = ''EOF''\<rparr>))
   \<and> fst (ClientDecodeResponseBody sample_FormatFromContentType sample_Format
            sample_DecodeResponseBytes JSON (sample_response ''application/json'' ''{}''))
     = Some ''{}''
   \<and> ClientDecodeResponseHeaders sample_NewMessageFromHeaders sample_WrapAsResponse
       (sample_response ''application/json'' ''{}'')
     = (Some ''{}'', None)"
proof -
  note rc = response_decoders_classify
              [where FormatFromContentType = sample_FormatFromContentType
                 and Format = sample_Format and DecodeResponseBytes = sample_DecodeResponseBytes
                 and pool = JSON and NewMessageFromHeaders = sample_NewMessageFromHeaders
                 and WrapAsResponse = sample_WrapAsResponse]
  have ct: "\<And>c b. c = Header_Get (ResponseHeader (sample_response c b)) ''Content-Type''"
    and ok: "\<And>c b. StatusCode (sample_response c b) = StatusOK"
    and body: "\<And>c b. ResponseBody (sample_response c b) = Inr b"
    by (simp_all add: sample_response_def Header_Get_def StatusOK_def)
  have 1: "ClientDecodeResponseBody sample_FormatFromContentType sample_Format sample_DecodeResponseBytes
       JSON (sample_response ''text/plain'' ''{}'')
     = (None, Some (E \<lparr>Code = 400, Text = ''Invalid WRP content type: text/plain''\<rparr>))"
    using rc[OF ok body ct, of "''text/plain''" "''{}''"]
    by (simp add: sample_FormatFromContentType_def sample_Format_def StatusBadRequest_def)
  have 2: "ClientDecodeResponseBody sample_FormatFromContentType sample_Format sample_DecodeResponseBytes
       JSON (sample_response ''application/msgpack'' ''{}'')
     = (None, Some (E \<lparr>Code = 415,
                     Text = ''Unexpected response Content-Type: application/msgpack''\<rparr>))"
    using rc[OF ok body ct, of "''application/msgpack''" "''{}''"]
    by (simp add: sample_FormatFromContentType_def sample_Format_def StatusUnsupportedMediaType_def)
  have 3: "ClientDecodeResponseBody sample_FormatFromContentType sample_Format sample_DecodeResponseBytes
       JSON (sample_response ''application/json'' [])
     = (None, Some (E \<lparr>Code = 500, Text = ''EOF''\<rparr>))"
    using rc[OF ok body ct, of "''application/json''" "[]"]
    by (simp add: sample_FormatFromContentType_def sample_Format_def sample_DecodeResponseBytes_def
          StatusInternalServerError_def)
  have 4: "fst (ClientDecodeResponseBody sample_FormatFromContentType sample_Format
            sample_DecodeResponseBytes JSON (sample_response ''application/json'' ''{}''))
     = Some ''{}''"
    using rc[OF ok body ct, of "''application/json''" "''{}''"]
    by (simp add: sample_FormatFromContentType_def sample_Format_def sample_DecodeResponseBytes_def)
  have 5: "ClientDecodeResponseHeaders sample_NewMessageFromHeaders sample_WrapAsResponse
       (sample_response ''application/json'' ''{}'')
     = (Some ''{}'', None)"
    using rc[OF ok body ct, of "''application/json''" "''{}''"]
    by (simp add: sample_NewMessageFromHeaders_def sample_WrapAsResponse_def)
  show ?thesis using 1 2 3 4 5 by (intro conjI)
qed

text \<open>
  Claim C9 as stated covers both decoders. A response with status 200 and a content type that
  cannot be parsed is decoded by \<open>ClientDecodeResponseHeaders\<close> into a response.
\<close>

theorem headers_decoder_ignores_content_type_counterexample:
  "StatusCode (sample_response ''text/plain'' ''payload'') = 200
   \<and> sample_FormatFromContentType
        (Header_Get (ResponseHeader (sample_response ''text/plain'' ''payload'')) ''Content-Type'')
      = Inl ''Invalid WRP content type: text/plain''
   \<and> ClientDecodeResponseHeaders sample_NewMessageFromHeaders sample_WrapAsResponse
        (sample_response ''text/plain'' ''payload'')
      = (Some ''payload'', None)"
  by (simp add: sample_response_def sample_FormatFromContentType_def Header_Get_def
        ClientDecodeResponseHeaders_def sample_NewMessageFromHeaders_def
        sample_WrapAsResponse_def StatusOK_def)

end
